theory Spec2Isabelle
  imports Complex_Main
begin

section \<open>The ratio-trigger hedge engine of hedge_server.py\<close>

text \<open>
  The engine is a polling loop over module-level variables. One pass through the body of
  \<^verbatim>\<open>while True\<close> is the function \<open>cycle\<close>: it takes the configuration, the
  loop-carried variables and what the two gateways answer during that pass, and returns the
  updated variables together with how the pass ended. Python floats are taken as exact
  rationals; \<^verbatim>\<open>None\<close> is \<open>None\<close>.
\<close>

subsection \<open>Configuration and loop-carried state\<close>

record config =
  trigger_drop_pct :: rat
  usd_position_size :: rat
  MAX_USD_POSITION :: rat
  ENABLE_SCALE_IN :: bool
  SCALE_IN_LEGS :: int
  SCALE_IN_DROP_STEP :: rat

text \<open>
  \<open>scale_in_executed\<close> starts at 0 and is only ever incremented, or set to
  \<open>SCALE_IN_LEGS\<close> inside a branch guarded by \<open>scale_in_executed < SCALE_IN_LEGS\<close>;
  it is a natural number.
\<close>

record engine_state =
  initial_ratio :: "rat option"
  trigger_ratio :: "rat option"
  scale_in_trigger_ratios :: "rat list"
  scale_in_executed :: nat

datatype py_error = ZeroDivisionError

type_synonym price = "rat option"

text \<open>
  Python's \<^verbatim>\<open>not p\<close> on what \<^verbatim>\<open>get_price\<close> returns: \<^verbatim>\<open>None\<close> and
  \<^verbatim>\<open>0.0\<close> are falsy.
\<close>

fun falsy :: "price \<Rightarrow> bool" where
  "falsy None = True"
| "falsy (Some p) = (p = 0)"

subsection \<open>Rounding\<close>

text \<open>\<^verbatim>\<open>round(x, ndigits)\<close>: to the nearest multiple of \<open>10^-ndigits\<close>, ties to even.\<close>

definition round_half_even :: "rat \<Rightarrow> int" where
  "round_half_even x =
     (let f = \<lfloor>x\<rfloor>; d = x - of_int f
      in if d < 1 / 2 then f
         else if 1 / 2 < d then f + 1
         else if even f then f else f + 1)"

definition py_round :: "rat \<Rightarrow> nat \<Rightarrow> rat" where
  "py_round x ndigits = of_int (round_half_even (x * 10 ^ ndigits)) / 10 ^ ndigits"

subsection \<open>Start-up: lines 169 to 216\<close>

text \<open>
  The initial fetch is retried up to \<open>max_retries\<close> times; \<open>fetch n\<close> is what the two
  \<^verbatim>\<open>get_price\<close> calls of attempt \<open>n\<close> return. After the last failure the
  source stores the dummy values 0 and 1; a successful attempt, or the last failed one,
  ends the loop.
\<close>

definition max_retries :: nat where
  "max_retries = 5"

function initial_prices :: "(nat \<Rightarrow> price \<times> price) \<Rightarrow> nat \<Rightarrow> price \<times> price \<Rightarrow> price \<times> price" where
  "initial_prices fetch retry_count pp =
     (if retry_count < max_retries \<and> (falsy (fst pp) \<or> falsy (snd pp)) then
        (if falsy (fst (fetch retry_count)) \<or> falsy (snd (fetch retry_count)) then
           (if retry_count + 1 < max_retries
            then initial_prices fetch (retry_count + 1) (fetch retry_count)
            else (Some 0, Some 1))
         else fetch retry_count)
      else pp)"
  by pat_completeness auto
termination
  by (relation "measure (\<lambda>(fetch, retry_count, pp). max_retries - retry_count)") auto

definition scale_in_leg_size :: "config \<Rightarrow> rat" where
  "scale_in_leg_size cfg =
     (if ENABLE_SCALE_IN cfg then usd_position_size cfg / of_int (SCALE_IN_LEGS cfg)
      else usd_position_size cfg)"

text \<open>Lines 207 to 212: the ladder is filled by a loop that appends one entry per leg.\<close>

definition ladder_entry :: "config \<Rightarrow> rat \<Rightarrow> nat \<Rightarrow> rat" where
  "ladder_entry cfg r i =
     (let drop_pct = trigger_drop_pct cfg + of_nat i * SCALE_IN_DROP_STEP cfg
      in r * (1 - drop_pct / 100))"

definition ladder_step :: "config \<Rightarrow> rat option \<Rightarrow> rat list \<Rightarrow> nat \<Rightarrow> rat list" where
  "ladder_step cfg ir acc i =
     (case ir of
        None \<Rightarrow> acc
      | Some r \<Rightarrow> if r \<noteq> 0 then acc @ [ladder_entry cfg r i] else acc)"

definition build_ladder :: "config \<Rightarrow> rat option \<Rightarrow> rat list" where
  "build_ladder cfg ir =
     (if ENABLE_SCALE_IN cfg
      then foldl (ladder_step cfg ir) [] [0 ..< nat (SCALE_IN_LEGS cfg)]
      else [])"

text \<open>
  Lines 192 to 216, from the prices the retry loop ended with. Line 205 divides by
  \<open>SCALE_IN_LEGS\<close> when scale-in is enabled, which raises at module level when it is 0.
\<close>

definition startup :: "config \<Rightarrow> price \<times> price \<Rightarrow> py_error + engine_state" where
  "startup cfg pp =
     (let ir = (case pp of
                  (Some pl, Some ps) \<Rightarrow>
                    if pl \<noteq> 0 \<and> ps \<noteq> 0 \<and> 0 < pl \<and> 0 < ps then Some (pl / ps) else None
                | _ \<Rightarrow> None);
          tr = map_option (\<lambda>r. r * (1 - trigger_drop_pct cfg / 100)) ir
      in if ENABLE_SCALE_IN cfg \<and> SCALE_IN_LEGS cfg = 0 then Inl ZeroDivisionError
         else Inr \<lparr>initial_ratio = ir, trigger_ratio = tr,
                   scale_in_trigger_ratios = build_ladder cfg ir,
                   scale_in_executed = 0\<rparr>)"

subsection \<open>The order gateway and one pass of the loop\<close>

datatype side = Buy | Sell

text \<open>
  What one call of \<^verbatim>\<open>place_market_order\<close> does: it has no handler of its own, so
  \<^verbatim>\<open>requests.post\<close> or \<^verbatim>\<open>r.json()\<close> raising leaves the function as an
  exception (\<open>Raises\<close>); otherwise it returns the decoded body, which is a JSON object
  whose \<^verbatim>\<open>retCode\<close> is kept (\<open>None\<close> when absent), or something without
  \<^verbatim>\<open>.get\<close> (\<open>NonObject\<close>).
\<close>

datatype order_reply = Raises | NonObject | Body "int option"

record poll =
  long_price :: price
  short_price :: price
  reply_long :: order_reply
  reply_short :: order_reply

text \<open>Each \<^verbatim>\<open>break\<close> of the loop, named after the message printed before it.\<close>

datatype stop_reason =
    AllLegsSkipped
  | ScaleInStopped bool bool
  | AllLegsCompleted
  | BothExecuted
  | UnhedgedLong
  | UnhedgedShort

text \<open>
  How a pass ends: \<open>Continue\<close> is \<^verbatim>\<open>continue\<close> or falling through to the
  sleep of line 406, \<open>Caught\<close> is the handler of lines 411 to 415 (which also loops),
  \<open>Break\<close> leaves the loop, after which the script ends.
\<close>

datatype control = Continue | Caught | Break stop_reason

record cycle_result =
  next_state :: engine_state
  ctl :: control
  ratio :: "rat option"
  fired :: bool
  orders :: "(side \<times> rat) list"

definition outcome ::
  "engine_state \<Rightarrow> control \<Rightarrow> rat option \<Rightarrow> bool \<Rightarrow> (side \<times> rat) list \<Rightarrow> cycle_result" where
  "outcome st c r f os = \<lparr>next_state = st, ctl = c, ratio = r, fired = f, orders = os\<rparr>"

definition min_usd_value :: rat where
  "min_usd_value = 1"

definition too_small :: "rat \<Rightarrow> rat \<Rightarrow> rat \<Rightarrow> rat \<Rightarrow> bool" where
  "too_small long_qty lp short_qty sp =
     (long_qty * lp < min_usd_value \<or> short_qty * sp < min_usd_value)"

text \<open>Lines 292 and 355.\<close>

definition scale_in_trade_size :: "config \<Rightarrow> nat \<Rightarrow> rat" where
  "scale_in_trade_size cfg executed =
     min (scale_in_leg_size cfg)
         (MAX_USD_POSITION cfg - of_nat executed * scale_in_leg_size cfg)"

definition single_trade_size :: "config \<Rightarrow> rat" where
  "single_trade_size cfg = min (usd_position_size cfg) (MAX_USD_POSITION cfg)"

text \<open>Lines 314 to 349: the two submissions of a scale-in leg and what follows them.\<close>

definition scale_in_submit ::
  "config \<Rightarrow> engine_state \<Rightarrow> rat \<Rightarrow> rat \<Rightarrow> rat \<Rightarrow> order_reply \<Rightarrow> order_reply \<Rightarrow> cycle_result" where
  "scale_in_submit cfg st r long_qty short_qty r1 r2 =
     (case r1 of
        Raises \<Rightarrow> outcome st Caught (Some r) True [(Buy, long_qty)]
      | _ \<Rightarrow>
       (case r2 of
          Raises \<Rightarrow> outcome st Caught (Some r) True [(Buy, long_qty), (Sell, short_qty)]
        | _ \<Rightarrow>
         (case (r1, r2) of
            (Body c1, Body c2) \<Rightarrow>
              (let long_success = (c1 = Some 0); short_success = (c2 = Some 0) in
               if \<not> (long_success \<and> short_success) then
                 outcome st (Break (ScaleInStopped long_success short_success)) (Some r) True
                   [(Buy, long_qty), (Sell, short_qty)]
               else
                 (let st' = st\<lparr>scale_in_executed := scale_in_executed st + 1\<rparr> in
                  if SCALE_IN_LEGS cfg \<le> int (scale_in_executed st') then
                    outcome st' (Break AllLegsCompleted) (Some r) True
                      [(Buy, long_qty), (Sell, short_qty)]
                  else
                    outcome st' Continue (Some r) True [(Buy, long_qty), (Sell, short_qty)]))
          | _ \<Rightarrow> outcome st Caught (Some r) True [(Buy, long_qty), (Sell, short_qty)])))"

text \<open>Lines 371 to 404: the same for the single-shot trade.\<close>

definition single_submit ::
  "engine_state \<Rightarrow> rat \<Rightarrow> rat \<Rightarrow> rat \<Rightarrow> order_reply \<Rightarrow> order_reply \<Rightarrow> cycle_result" where
  "single_submit st r long_qty short_qty r1 r2 =
     (case r1 of
        Raises \<Rightarrow> outcome st Caught (Some r) True [(Buy, long_qty)]
      | _ \<Rightarrow>
       (case r2 of
          Raises \<Rightarrow> outcome st Caught (Some r) True [(Buy, long_qty), (Sell, short_qty)]
        | _ \<Rightarrow>
         (case (r1, r2) of
            (Body c1, Body c2) \<Rightarrow>
              (let long_success = (c1 = Some 0); short_success = (c2 = Some 0) in
               if long_success \<and> short_success then
                 outcome st (Break BothExecuted) (Some r) True [(Buy, long_qty), (Sell, short_qty)]
               else if long_success \<and> \<not> short_success then
                 outcome st (Break UnhedgedLong) (Some r) True [(Buy, long_qty), (Sell, short_qty)]
               else if \<not> long_success \<and> short_success then
                 outcome st (Break UnhedgedShort) (Some r) True [(Buy, long_qty), (Sell, short_qty)]
               else
                 outcome st Continue (Some r) True [(Buy, long_qty), (Sell, short_qty)])
          | _ \<Rightarrow> outcome st Caught (Some r) True [(Buy, long_qty), (Sell, short_qty)])))"

text \<open>Lines 277 to 406: the trading logic, with the prices and the ratio of this pass.\<close>

definition trade ::
  "config \<Rightarrow> engine_state \<Rightarrow> rat \<Rightarrow> rat \<Rightarrow> rat \<Rightarrow> order_reply \<Rightarrow> order_reply \<Rightarrow> cycle_result" where
  "trade cfg st lp sp r r1 r2 =
     (case trigger_ratio st of
        None \<Rightarrow> outcome st Continue (Some r) False []
      | Some tr \<Rightarrow>
         if ENABLE_SCALE_IN cfg then
           (if int (scale_in_executed st) < SCALE_IN_LEGS cfg
               \<and> scale_in_executed st < length (scale_in_trigger_ratios st)
               \<and> r \<le> scale_in_trigger_ratios st ! scale_in_executed st then
              (let trade_size = scale_in_trade_size cfg (scale_in_executed st) in
               if trade_size \<le> 0 then
                 outcome (st\<lparr>scale_in_executed := nat (SCALE_IN_LEGS cfg)\<rparr>) Continue (Some r) True []
               else
                 (let long_qty = py_round (trade_size / lp) 2;
                      short_qty = py_round (trade_size / sp) 0 in
                  if too_small long_qty lp short_qty sp then
                    (let st' = st\<lparr>scale_in_executed := scale_in_executed st + 1\<rparr> in
                     if SCALE_IN_LEGS cfg \<le> int (scale_in_executed st')
                     then outcome st' (Break AllLegsSkipped) (Some r) True []
                     else outcome st' Continue (Some r) True [])
                  else scale_in_submit cfg st r long_qty short_qty r1 r2))
            else outcome st Continue (Some r) False [])
         else if r \<le> tr then
           (let trade_size = single_trade_size cfg;
                long_qty = py_round (trade_size / lp) 2;
                short_qty = py_round (trade_size / sp) 0 in
            if too_small long_qty lp short_qty sp then outcome st Continue (Some r) True []
            else single_submit st r long_qty short_qty r1 r2)
         else outcome st Continue (Some r) False [])"

text \<open>Lines 233 to 246: the baseline is set only while \<open>initial_ratio\<close> is \<^verbatim>\<open>None\<close>.\<close>

definition set_baseline :: "config \<Rightarrow> engine_state \<Rightarrow> rat \<Rightarrow> rat \<Rightarrow> engine_state option" where
  "set_baseline cfg st lp sp =
     (case initial_ratio st of
        None \<Rightarrow>
          if sp = 0 then None
          else Some (st\<lparr>initial_ratio := Some (lp / sp),
                        trigger_ratio := Some (lp / sp * (1 - trigger_drop_pct cfg / 100))\<rparr>)
      | Some _ \<Rightarrow> Some st)"

text \<open>Lines 224 to 415: one pass of the loop body.\<close>

definition cycle :: "config \<Rightarrow> engine_state \<Rightarrow> poll \<Rightarrow> cycle_result" where
  "cycle cfg st io =
     (if falsy (long_price io) \<or> falsy (short_price io) then
        outcome st Continue None False []
      else
        (case (long_price io, short_price io) of
           (Some lp, Some sp) \<Rightarrow>
             (case set_baseline cfg st lp sp of
                None \<Rightarrow> outcome st Continue None False []
              | Some st1 \<Rightarrow>
                  if sp = 0 then outcome st1 Continue None False []
                  else trade cfg st1 lp sp (lp / sp) (reply_long io) (reply_short io))
         | _ \<Rightarrow> outcome st Continue None False []))"

text \<open>
  The loop over the passes that a finite prefix of gateway answers allows: the result of
  every pass, ending at the first \<^verbatim>\<open>break\<close>.
\<close>

fun run :: "config \<Rightarrow> engine_state \<Rightarrow> poll list \<Rightarrow> cycle_result list" where
  "run cfg st [] = []"
| "run cfg st (io # ios) =
     (let res = cycle cfg st io in
      res # (case ctl res of Break _ \<Rightarrow> [] | _ \<Rightarrow> run cfg (next_state res) ios))"


text \<open>
  The USD amount a triggered pass derives its quantities from (line 292 under scale-in, line
  355 otherwise), and the capacity it is capped at.
\<close>

definition trade_size_of :: "config \<Rightarrow> engine_state \<Rightarrow> rat" where
  "trade_size_of cfg st =
     (if ENABLE_SCALE_IN cfg then scale_in_trade_size cfg (scale_in_executed st)
      else single_trade_size cfg)"


subsection \<open>Concrete configurations and inputs\<close>

text \<open>Scale-in with three legs, base drop 1 percent, step 2 percent, baseline 200 / 100.\<close>

definition ladder_cfg :: config where
  "ladder_cfg = \<lparr>trigger_drop_pct = 1, usd_position_size = 1500, MAX_USD_POSITION = 1500,
     ENABLE_SCALE_IN = True, SCALE_IN_LEGS = 3, SCALE_IN_DROP_STEP = 2\<rparr>"

definition ladder_state :: engine_state where
  "ladder_state = \<lparr>initial_ratio = Some 2, trigger_ratio = Some (99 / 50),
     scale_in_trigger_ratios = [99 / 50, 97 / 50, 19 / 10], scale_in_executed = 0\<rparr>"

definition poll_up :: poll where
  "poll_up = \<lparr>long_price = Some 1000000, short_price = Some 1,
     reply_long = Body (Some 0), reply_short = Body (Some 0)\<rparr>"

definition poll_down :: poll where
  "poll_down = \<lparr>long_price = Some 1, short_price = Some 1000,
     reply_long = Body (Some 0), reply_short = Body (Some 0)\<rparr>"

definition poll_zero_short :: poll where
  "poll_zero_short = \<lparr>long_price = Some 150, short_price = Some 0,
     reply_long = Body (Some 0), reply_short = Body (Some 0)\<rparr>"

text \<open>
  Single shot: baseline 200 / 100, trigger percentage 10, the default position size of 1500.
\<close>

definition scenario_cfg :: config where
  "scenario_cfg = \<lparr>trigger_drop_pct = 10, usd_position_size = 1500, MAX_USD_POSITION = 1500,
     ENABLE_SCALE_IN = False, SCALE_IN_LEGS = 3, SCALE_IN_DROP_STEP = 2\<rparr>"

definition scenario_state :: engine_state where
  "scenario_state = \<lparr>initial_ratio = Some 2, trigger_ratio = Some (9 / 5),
     scale_in_trigger_ratios = [], scale_in_executed = 0\<rparr>"

definition poll_170_100 :: poll where
  "poll_170_100 = \<lparr>long_price = Some 170, short_price = Some 100,
     reply_long = Body (Some 0), reply_short = Body (Some 0)\<rparr>"

definition poll_long_only :: poll where
  "poll_long_only = \<lparr>long_price = Some 170, short_price = Some 100,
     reply_long = Body (Some 0), reply_short = Body (Some 110007)\<rparr>"

text \<open>Position sizes below the minimum order value, and position caps that leave no capacity.\<close>

definition small_cfg :: config where
  "small_cfg = \<lparr>trigger_drop_pct = 10, usd_position_size = 1 / 2, MAX_USD_POSITION = 1 / 2,
     ENABLE_SCALE_IN = False, SCALE_IN_LEGS = 3, SCALE_IN_DROP_STEP = 2\<rparr>"

definition small_ladder_cfg :: config where
  "small_ladder_cfg = \<lparr>trigger_drop_pct = 1, usd_position_size = 3 / 2, MAX_USD_POSITION = 3 / 2,
     ENABLE_SCALE_IN = True, SCALE_IN_LEGS = 3, SCALE_IN_DROP_STEP = 2\<rparr>"




text \<open>Order replies other than two successes, and a start-up without prices.\<close>

definition poll_both_fail :: poll where
  "poll_both_fail = \<lparr>long_price = Some 170, short_price = Some 100,
     reply_long = Body (Some 10001), reply_short = Body (Some 10001)\<rparr>"

definition poll_short_raises :: poll where
  "poll_short_raises = \<lparr>long_price = Some 170, short_price = Some 100,
     reply_long = Body (Some 0), reply_short = Raises\<rparr>"

definition poll_200_100 :: poll where
  "poll_200_100 = \<lparr>long_price = Some 200, short_price = Some 100,
     reply_long = Body (Some 0), reply_short = Body (Some 0)\<rparr>"

definition unbaselined_state :: engine_state where
  "unbaselined_state = \<lparr>initial_ratio = None, trigger_ratio = None,
     scale_in_trigger_ratios = [], scale_in_executed = 0\<rparr>"

definition late_state :: engine_state where
  "late_state = \<lparr>initial_ratio = Some 2, trigger_ratio = Some (99 / 50),
     scale_in_trigger_ratios = [], scale_in_executed = 0\<rparr>"

section \<open>Properties\<close>

subsection \<open>Auxiliary facts\<close>

lemma outcome_sel [simp]:
  "next_state (outcome st c r f os) = st"
  "ctl (outcome st c r f os) = c"
  "ratio (outcome st c r f os) = r"
  "fired (outcome st c r f os) = f"
  "orders (outcome st c r f os) = os"
  by (simp_all add: outcome_def)

lemma run_second:
  "ctl (cycle cfg st io) = Continue \<Longrightarrow>
   cycle cfg (next_state (cycle cfg st io)) io' \<in> set (run cfg st (io # io' # ios))"
  by (simp add: Let_def)

lemma scale_in_submit_keeps:
  "initial_ratio (next_state (scale_in_submit cfg st r lq sq r1 r2)) = initial_ratio st"
  "trigger_ratio (next_state (scale_in_submit cfg st r lq sq r1 r2)) = trigger_ratio st"
  "scale_in_trigger_ratios (next_state (scale_in_submit cfg st r lq sq r1 r2)) =
     scale_in_trigger_ratios st"
  by (simp_all add: scale_in_submit_def Let_def split: order_reply.splits)

lemma single_submit_keeps: "next_state (single_submit st r lq sq r1 r2) = st"
  by (simp add: single_submit_def Let_def split: order_reply.splits)

lemma trade_keeps:
  "initial_ratio (next_state (trade cfg st lp sp r r1 r2)) = initial_ratio st"
  "trigger_ratio (next_state (trade cfg st lp sp r r1 r2)) = trigger_ratio st"
  "scale_in_trigger_ratios (next_state (trade cfg st lp sp r r1 r2)) =
     scale_in_trigger_ratios st"
  by (simp_all add: trade_def Let_def scale_in_submit_keeps single_submit_keeps
        split: option.splits)

lemma cycle_keeps_ladder:
  "scale_in_trigger_ratios (next_state (cycle cfg st io)) = scale_in_trigger_ratios st"
  by (auto simp: cycle_def set_baseline_def trade_keeps split: option.splits)

lemma cycle_keeps_baseline:
  assumes "initial_ratio st = Some b"
  shows "initial_ratio (next_state (cycle cfg st io)) = Some b"
    and "trigger_ratio (next_state (cycle cfg st io)) = trigger_ratio st"
  using assms by (auto simp: cycle_def set_baseline_def trade_keeps split: option.splits)

lemma foldl_ladder_step:
  "b \<noteq> 0 \<Longrightarrow> foldl (ladder_step cfg (Some b)) acc xs = acc @ map (ladder_entry cfg b) xs"
  by (induction xs arbitrary: acc) (simp_all add: ladder_step_def)

lemma build_ladder_map:
  "ENABLE_SCALE_IN cfg \<Longrightarrow> b \<noteq> 0 \<Longrightarrow>
   build_ladder cfg (Some b) = map (ladder_entry cfg b) [0 ..< nat (SCALE_IN_LEGS cfg)]"
  by (simp add: build_ladder_def foldl_ladder_step)

lemma ladder_entry_mono:
  assumes "0 < b" "0 \<le> SCALE_IN_DROP_STEP cfg" "i \<le> j"
  shows "ladder_entry cfg b j \<le> ladder_entry cfg b i"
proof -
  have "(of_nat i :: rat) \<le> of_nat j" using assms(3) by simp
  then have "of_nat i * SCALE_IN_DROP_STEP cfg \<le> of_nat j * SCALE_IN_DROP_STEP cfg"
    using assms(2) by (rule mult_right_mono)
  then have "1 - (trigger_drop_pct cfg + of_nat j * SCALE_IN_DROP_STEP cfg) / 100
           \<le> 1 - (trigger_drop_pct cfg + of_nat i * SCALE_IN_DROP_STEP cfg) / 100"
    by simp
  then show ?thesis
    unfolding ladder_entry_def Let_def using assms(1) by (simp add: mult_le_cancel_left_pos)
qed

lemma ladder_startup: "startup ladder_cfg (Some 200, Some 100) = Inr ladder_state"
  by code_simp

lemma trade_partial:
  assumes "orders (trade cfg st lp sp r (Body c1) (Body c2)) \<noteq> []"
    and "(c1 = Some 0) \<noteq> (c2 = Some 0)"
  shows "ctl (trade cfg st lp sp r (Body c1) (Body c2)) =
           Break (if ENABLE_SCALE_IN cfg then ScaleInStopped (c1 = Some 0) (c2 = Some 0)
                  else if c1 = Some 0 then UnhedgedLong else UnhedgedShort)
       \<and> length (orders (trade cfg st lp sp r (Body c1) (Body c2))) = 2"
  using assms
  by (auto simp: trade_def scale_in_submit_def single_submit_def Let_def
        split: option.splits if_splits)

lemma cycle_with_orders:
  assumes "orders (cycle cfg st io) \<noteq> []"
  obtains lp sp st1 where
    "cycle cfg st io = trade cfg st1 lp sp (lp / sp) (reply_long io) (reply_short io)"
  using assms by (auto simp: cycle_def split: option.splits if_splits)








lemma fired_submit [simp]:
  "fired (scale_in_submit cfg st r lq sq r1 r2)" "fired (single_submit st r lq sq r1 r2)"
  by (simp_all add: scale_in_submit_def single_submit_def Let_def split: order_reply.splits)

lemma cycle_monitoring:
  assumes "long_price io = Some lp" and "short_price io = Some sp"
    and "lp \<noteq> 0" and "sp \<noteq> 0" and "initial_ratio st = Some b"
  shows "cycle cfg st io = trade cfg st lp sp (lp / sp) (reply_long io) (reply_short io)"
  using assms by (simp add: cycle_def set_baseline_def)

subsection \<open>The trigger ladder\<close>

text \<open>
  Claim C7. With scale-in enabled and a baseline taken at start-up from the positive prices
  \<open>pl\<close> and \<open>ps\<close>, the ladder has one entry per leg, the entry of leg \<open>j\<close> is
  \<open>baseline * (1 - (B + j * S) / 100)\<close>, for a step \<open>S \<ge> 0\<close> the entries do not
  increase with the leg index, and the percentage drop of leg 0 from the baseline is
  exactly the configured base percentage \<open>B\<close>.
\<close>

theorem trigger_ladder_formula:
  assumes "startup cfg (Some pl, Some ps) = Inr st"
    and "0 < pl" and "0 < ps"
    and "ENABLE_SCALE_IN cfg"
    and "0 \<le> SCALE_IN_DROP_STEP cfg"
    and "i \<le> j" and "int j < SCALE_IN_LEGS cfg"
  shows "initial_ratio st = Some (pl / ps)
       \<and> length (scale_in_trigger_ratios st) = nat (SCALE_IN_LEGS cfg)
       \<and> scale_in_trigger_ratios st ! j =
           pl / ps * (1 - (trigger_drop_pct cfg + of_nat j * SCALE_IN_DROP_STEP cfg) / 100)
       \<and> scale_in_trigger_ratios st ! j \<le> scale_in_trigger_ratios st ! i
       \<and> (pl / ps - scale_in_trigger_ratios st ! 0) / (pl / ps) * 100 = trigger_drop_pct cfg"
proof -
  define b where "b = pl / ps"
  have b: "0 < b" using assms(2,3) by (simp add: b_def)
  then have b0: "b \<noteq> 0" by simp
  have st: "initial_ratio st = Some b" "scale_in_trigger_ratios st = build_ladder cfg (Some b)"
    using assms(1,2,3) by (auto simp: startup_def Let_def b_def split: if_splits)
  have lad: "scale_in_trigger_ratios st = map (ladder_entry cfg b) [0 ..< nat (SCALE_IN_LEGS cfg)]"
    using build_ladder_map[OF assms(4) b0] by (simp add: st(2))
  have j: "j < nat (SCALE_IN_LEGS cfg)" and i: "i < nat (SCALE_IN_LEGS cfg)"
    and z: "0 < nat (SCALE_IN_LEGS cfg)"
    using assms(6,7) by linarith+
  have e0: "scale_in_trigger_ratios st ! 0 = b * (1 - trigger_drop_pct cfg / 100)"
    using z by (simp add: lad ladder_entry_def)
  have "(b - scale_in_trigger_ratios st ! 0) / b * 100 = trigger_drop_pct cfg"
    using b0 by (simp add: e0 field_simps)
  moreover have "scale_in_trigger_ratios st ! j \<le> scale_in_trigger_ratios st ! i"
    using i j by (simp add: lad ladder_entry_mono[OF b assms(5,6)])
  moreover have "scale_in_trigger_ratios st ! j = ladder_entry cfg b j"
    using j by (simp add: lad)
  moreover have "length (scale_in_trigger_ratios st) = nat (SCALE_IN_LEGS cfg)"
    by (simp add: lad)
  ultimately show ?thesis
    using st(1) unfolding b_def ladder_entry_def Let_def by blast
qed

theorem trigger_ladder_formula_witness:
  "startup ladder_cfg (Some 200, Some 100) = Inr ladder_state
   \<and> scale_in_trigger_ratios ladder_state ! 2 = 19 / 10
   \<and> scale_in_trigger_ratios ladder_state ! 2 \<le> scale_in_trigger_ratios ladder_state ! 1
   \<and> (200 / 100 - scale_in_trigger_ratios ladder_state ! 0) / (200 / 100) * 100 = 1"
proof -
  have cfg: "ENABLE_SCALE_IN ladder_cfg" "0 \<le> SCALE_IN_DROP_STEP ladder_cfg"
    "int 2 < SCALE_IN_LEGS ladder_cfg"
    "trigger_drop_pct ladder_cfg = 1" "SCALE_IN_DROP_STEP ladder_cfg = 2"
    by (simp_all add: ladder_cfg_def)
  have le: "(1::nat) \<le> 2" by simp
  have pos: "(0::rat) < 200" "(0::rat) < 100" by simp_all
  from trigger_ladder_formula[OF ladder_startup pos cfg(1) cfg(2) le cfg(3)]
  show ?thesis using ladder_startup by (simp add: cfg)
qed

subsection \<open>The baseline is written once\<close>

text \<open>
  Claim C9. Once \<open>initial_ratio\<close> is set, no later pass of the loop changes it, nor the
  single trigger ratio, nor any ladder entry, whatever prices and order replies the later
  passes receive.
\<close>

theorem baseline_immutable:
  assumes "initial_ratio st = Some b" and "res \<in> set (run cfg st ios)"
  shows "initial_ratio (next_state res) = Some b
       \<and> trigger_ratio (next_state res) = trigger_ratio st
       \<and> scale_in_trigger_ratios (next_state res) = scale_in_trigger_ratios st"
  using assms
proof (induction ios arbitrary: st)
  case Nil
  then show ?case by simp
next
  case (Cons io ios)
  let ?r = "cycle cfg st io"
  have keep: "initial_ratio (next_state ?r) = Some b"
    "trigger_ratio (next_state ?r) = trigger_ratio st"
    "scale_in_trigger_ratios (next_state ?r) = scale_in_trigger_ratios st"
    using Cons.prems(1) by (simp_all add: cycle_keeps_baseline cycle_keeps_ladder)
  from Cons.prems(2) consider "res = ?r" | "res \<in> set (run cfg (next_state ?r) ios)"
    by (auto simp: Let_def split: control.splits)
  then show ?case
  proof cases
    case 1
    then show ?thesis using keep by simp
  next
    case 2
    from Cons.IH[OF keep(1) 2] show ?thesis using keep by simp
  qed
qed

theorem baseline_immutable_witness:
  "initial_ratio ladder_state = Some 2
   \<and> cycle ladder_cfg (next_state (cycle ladder_cfg ladder_state poll_up)) poll_down
       \<in> set (run ladder_cfg ladder_state [poll_up, poll_down])
   \<and> initial_ratio (next_state
         (cycle ladder_cfg (next_state (cycle ladder_cfg ladder_state poll_up)) poll_down)) = Some 2
   \<and> trigger_ratio (next_state
         (cycle ladder_cfg (next_state (cycle ladder_cfg ladder_state poll_up)) poll_down)) = Some (99 / 50)
   \<and> scale_in_trigger_ratios (next_state
         (cycle ladder_cfg (next_state (cycle ladder_cfg ladder_state poll_up)) poll_down))
       = [99 / 50, 97 / 50, 19 / 10]"
proof -
  have b: "initial_ratio ladder_state = Some 2" by (simp add: ladder_state_def)
  have "ctl (cycle ladder_cfg ladder_state poll_up) = Continue" by code_simp
  then have m: "cycle ladder_cfg (next_state (cycle ladder_cfg ladder_state poll_up)) poll_down
       \<in> set (run ladder_cfg ladder_state [poll_up, poll_down])"
    by (rule run_second)
  from baseline_immutable[OF b m] show ?thesis
    using b m by (simp add: ladder_state_def)
qed

subsection \<open>A zero short price\<close>

text \<open>
  Claim C10. On a pass where the short price is 0, whether or not a baseline is set, the
  pass computes no ratio, evaluates no trigger, places no order, leaves every loop variable
  (the baseline among them) as it was, ends neither in the exception handler nor in a
  \<^verbatim>\<open>break\<close>, and the loop goes on with the next pass.
\<close>

theorem zero_short_price_skips:
  assumes "short_price io = Some 0"
  shows "next_state (cycle cfg st io) = st
       \<and> ctl (cycle cfg st io) = Continue
       \<and> ratio (cycle cfg st io) = None
       \<and> \<not> fired (cycle cfg st io)
       \<and> orders (cycle cfg st io) = []
       \<and> run cfg st (io # ios) = cycle cfg st io # run cfg st ios"
  using assms by (simp add: cycle_def Let_def)

theorem zero_short_price_skips_witness:
  "short_price poll_zero_short = Some 0
   \<and> next_state (cycle ladder_cfg ladder_state poll_zero_short) = ladder_state
   \<and> ctl (cycle ladder_cfg ladder_state poll_zero_short) = Continue
   \<and> ratio (cycle ladder_cfg ladder_state poll_zero_short) = None
   \<and> orders (cycle ladder_cfg ladder_state poll_zero_short) = []"
proof -
  have z: "short_price poll_zero_short = Some 0" by (simp add: poll_zero_short_def)
  from zero_short_price_skips[OF z, of ladder_cfg ladder_state "[]"] show ?thesis
    using z by simp
qed

subsection \<open>One order of the pair succeeds\<close>

text \<open>
  When a pass submits the order pair and gets a venue response for each order, exactly one
  of them with code zero, the loop is left by \<^verbatim>\<open>break\<close>: the pass is the last one
  whatever the gateways would answer afterwards, so no further order is issued. The reason
  of the stop tells which side succeeded: the two flags of the scale-in path, the unhedged
  long or unhedged short message of the single-shot path.
\<close>

lemma partial_failure_halts:
  assumes "orders (cycle cfg st io) \<noteq> []"
    and "reply_long io = Body c1" and "reply_short io = Body c2"
    and "(c1 = Some 0) \<noteq> (c2 = Some 0)"
  shows "ctl (cycle cfg st io) =
           Break (if ENABLE_SCALE_IN cfg then ScaleInStopped (c1 = Some 0) (c2 = Some 0)
                  else if c1 = Some 0 then UnhedgedLong else UnhedgedShort)
       \<and> length (orders (cycle cfg st io)) = 2
       \<and> run cfg st (io # ios) = [cycle cfg st io]"
proof -
  from assms(1) obtain lp sp st1 where
    c: "cycle cfg st io = trade cfg st1 lp sp (lp / sp) (Body c1) (Body c2)"
    by (rule cycle_with_orders) (simp add: assms(2,3))
  have "orders (trade cfg st1 lp sp (lp / sp) (Body c1) (Body c2)) \<noteq> []"
    using assms(1) by (simp add: c)
  from trade_partial[OF this assms(4)]
  have "ctl (cycle cfg st io) =
           Break (if ENABLE_SCALE_IN cfg then ScaleInStopped (c1 = Some 0) (c2 = Some 0)
                  else if c1 = Some 0 then UnhedgedLong else UnhedgedShort)
       \<and> length (orders (cycle cfg st io)) = 2"
    by (simp add: c)
  then show ?thesis by (simp add: Let_def)
qed

lemma partial_failure_halts_example:
  "orders (cycle scenario_cfg scenario_state poll_long_only) \<noteq> []
   \<and> ctl (cycle scenario_cfg scenario_state poll_long_only) = Break UnhedgedLong
   \<and> run scenario_cfg scenario_state [poll_long_only, poll_170_100, poll_170_100]
       = [cycle scenario_cfg scenario_state poll_long_only]
   \<and> orders (cycle ladder_cfg ladder_state poll_long_only) \<noteq> []
   \<and> ctl (cycle ladder_cfg ladder_state poll_long_only) = Break (ScaleInStopped True False)
   \<and> run ladder_cfg ladder_state [poll_long_only, poll_170_100, poll_170_100]
       = [cycle ladder_cfg ladder_state poll_long_only]"
proof -
  have o: "orders (cycle scenario_cfg scenario_state poll_long_only) \<noteq> []" by code_simp
  have o': "orders (cycle ladder_cfg ladder_state poll_long_only) \<noteq> []" by code_simp
  have r: "reply_long poll_long_only = Body (Some 0)" "reply_short poll_long_only = Body (Some 110007)"
    by (simp_all add: poll_long_only_def)
  have x: "(Some (0::int) = Some 0) \<noteq> (Some (110007::int) = Some 0)" by simp
  from partial_failure_halts[OF o r x, of "[poll_170_100, poll_170_100]"]
    partial_failure_halts[OF o' r x, of "[poll_170_100, poll_170_100]"]
  show ?thesis
    using o o' by (simp add: scenario_cfg_def ladder_cfg_def)
qed

text \<open>
  Claim C5 when the order that fails does so by raising: the long order returns code zero
  and the submission of the short order raises, so exactly one order of the pair has
  succeeded. The pass ends in the exception handler of the loop, not in a
  \<^verbatim>\<open>break\<close>; the next pass, at the same prices, submits the pair again. In the
  single-shot path the run ends only when that second pair succeeds, in the scale-in path
  the first leg is submitted a second time.
\<close>

theorem partial_failure_by_exception_continues:
  "reply_long poll_short_raises = Body (Some 0)
   \<and> reply_short poll_short_raises = Raises
   \<and> orders (cycle scenario_cfg scenario_state poll_short_raises) = [(Buy, 441 / 50), (Sell, 15)]
   \<and> ctl (cycle scenario_cfg scenario_state poll_short_raises) = Caught
   \<and> map ctl (run scenario_cfg scenario_state [poll_short_raises, poll_170_100])
       = [Caught, Break BothExecuted]
   \<and> concat (map orders (run scenario_cfg scenario_state [poll_short_raises, poll_170_100]))
       = [(Buy, 441 / 50), (Sell, 15), (Buy, 441 / 50), (Sell, 15)]
   \<and> map ctl (run ladder_cfg ladder_state [poll_short_raises, poll_170_100])
       = [Caught, Continue]
   \<and> concat (map orders (run ladder_cfg ladder_state [poll_short_raises, poll_170_100]))
       = [(Buy, 147 / 50), (Sell, 5), (Buy, 147 / 50), (Sell, 5)]"
  by code_simp

subsection \<open>The trigger condition\<close>



subsection \<open>Orders below the minimum value\<close>

text \<open>
  Claim C4, as stated, fails in the single-shot path. With a position size of 0.5 USD and no
  scale-in, a pass whose trigger fires finds both notionals below 1.0 and places no order,
  but the progress counter is not advanced and the loop does not stop: three such passes in
  a row all end in \<^verbatim>\<open>continue\<close>.
\<close>

theorem minimum_size_skip_counterexample:
  "fired (cycle small_cfg scenario_state poll_170_100)
   \<and> orders (cycle small_cfg scenario_state poll_170_100) = []
   \<and> scale_in_executed (next_state (cycle small_cfg scenario_state poll_170_100))
       = scale_in_executed scenario_state
   \<and> map ctl (run small_cfg scenario_state [poll_170_100, poll_170_100, poll_170_100])
       = [Continue, Continue, Continue]"
  by code_simp

text \<open>
  Claim C4, amended. On a pass in the monitoring state whose trigger fires and whose computed
  notional on either side is below the minimum of 1.0 (the trade size being positive under
  scale-in), no order is submitted. Under scale-in the progress counter advances by one,
  and the loop stops with the all-legs-skipped message when that was the last configured
  leg. In the single-shot path nothing is recorded and the loop keeps monitoring.
\<close>

theorem minimum_size_skip:
  assumes "long_price io = Some lp" and "short_price io = Some sp"
    and "lp \<noteq> 0" and "sp \<noteq> 0"
    and "initial_ratio st = Some b"
    and "fired (cycle cfg st io)"
    and "ENABLE_SCALE_IN cfg \<longrightarrow> 0 < trade_size_of cfg st"
    and "too_small (py_round (trade_size_of cfg st / lp) 2) lp
                   (py_round (trade_size_of cfg st / sp) 0) sp"
  shows "orders (cycle cfg st io) = []
       \<and> next_state (cycle cfg st io) =
           (if ENABLE_SCALE_IN cfg then st\<lparr>scale_in_executed := scale_in_executed st + 1\<rparr>
            else st)
       \<and> ctl (cycle cfg st io) =
           (if ENABLE_SCALE_IN cfg \<and> SCALE_IN_LEGS cfg \<le> int (scale_in_executed st) + 1
            then Break AllLegsSkipped else Continue)"
proof -
  have c: "cycle cfg st io = trade cfg st lp sp (lp / sp) (reply_long io) (reply_short io)"
    using assms(1-5) by (rule cycle_monitoring)
  show ?thesis
    using assms(6,7,8) unfolding c
    by (auto simp: trade_def trade_size_of_def Let_def split: option.splits if_splits)
qed

theorem minimum_size_skip_witness:
  "fired (cycle small_ladder_cfg ladder_state poll_170_100)
   \<and> orders (cycle small_ladder_cfg ladder_state poll_170_100) = []
   \<and> scale_in_executed (next_state (cycle small_ladder_cfg ladder_state poll_170_100)) = 1
   \<and> ctl (cycle small_ladder_cfg ladder_state poll_170_100) = Continue
   \<and> fired (cycle small_cfg scenario_state poll_170_100)
   \<and> orders (cycle small_cfg scenario_state poll_170_100) = []
   \<and> next_state (cycle small_cfg scenario_state poll_170_100) = scenario_state
   \<and> ctl (cycle small_cfg scenario_state poll_170_100) = Continue"
proof -
  have p: "long_price poll_170_100 = Some 170" "short_price poll_170_100 = Some 100"
    by (simp_all add: poll_170_100_def)
  have nz: "(170::rat) \<noteq> 0" "(100::rat) \<noteq> 0" by simp_all
  have b1: "initial_ratio ladder_state = Some 2" by (simp add: ladder_state_def)
  have f1: "fired (cycle small_ladder_cfg ladder_state poll_170_100)" by code_simp
  have e1: "ENABLE_SCALE_IN small_ladder_cfg \<longrightarrow> 0 < trade_size_of small_ladder_cfg ladder_state"
    by code_simp
  have s1: "too_small (py_round (trade_size_of small_ladder_cfg ladder_state / 170) 2) 170
                   (py_round (trade_size_of small_ladder_cfg ladder_state / 100) 0) 100"
    by code_simp
  have b2: "initial_ratio scenario_state = Some 2" by (simp add: scenario_state_def)
  have f2: "fired (cycle small_cfg scenario_state poll_170_100)" by code_simp
  have e2: "ENABLE_SCALE_IN small_cfg \<longrightarrow> 0 < trade_size_of small_cfg scenario_state"
    by (simp add: small_cfg_def)
  have s2: "too_small (py_round (trade_size_of small_cfg scenario_state / 170) 2) 170
                   (py_round (trade_size_of small_cfg scenario_state / 100) 0) 100"
    by code_simp
  from minimum_size_skip[OF p nz b1 f1 e1 s1] minimum_size_skip[OF p nz b2 f2 e2 s2]
  show ?thesis
    using f1 f2 by (simp add: small_ladder_cfg_def small_cfg_def ladder_state_def)
qed

subsection \<open>The position cap\<close>




text \<open>
  The cap is on the trade size, not on the notional of the rounded quantities: with the
  default configuration and a short price of 900 the short quantity rounds up to 2 units,
  a notional of 1800 against a trade size and maximum position of 1500.
\<close>

lemma rounded_notional_above_trade_size:
  "trade_size_of scenario_cfg scenario_state = 1500
   \<and> MAX_USD_POSITION scenario_cfg = 1500
   \<and> orders (cycle scenario_cfg scenario_state
         \<lparr>long_price = Some 170, short_price = Some 900,
            reply_long = Body (Some 0), reply_short = Body (Some 0)\<rparr>)
       = [(Buy, 441 / 50), (Sell, 2)]
   \<and> (1500::rat) < 2 * 900"
  by code_simp

subsection \<open>Both orders fail\<close>

text \<open>
  Claim C1 at a scale-in leg whose two orders both come back with a non-zero code: the pass
  leaves the loop through the \<^verbatim>\<open>break\<close> of line 334, so the same leg is never
  evaluated again. The single-shot path on the same replies continues with its state
  unchanged.
\<close>

theorem both_fail_scale_in_stops:
  "orders (cycle ladder_cfg ladder_state poll_both_fail) = [(Buy, 147 / 50), (Sell, 5)]
   \<and> ctl (cycle ladder_cfg ladder_state poll_both_fail) = Break (ScaleInStopped False False)
   \<and> run ladder_cfg ladder_state [poll_both_fail, poll_170_100]
       = [cycle ladder_cfg ladder_state poll_both_fail]
   \<and> ctl (cycle scenario_cfg scenario_state poll_both_fail) = Continue
   \<and> next_state (cycle scenario_cfg scenario_state poll_both_fail) = scenario_state"
  by code_simp

subsection \<open>A baseline taken inside the loop\<close>

text \<open>
  Claim C2 with scale-in enabled and a start-up whose five price fetches all fail: the first
  pass with prices 200 and 100 sets the baseline and the single trigger ratio, but the
  ladder stays empty, and a later pass at a ratio of 0.001 does not fire. The same
  configuration baselined at start-up gets its three ladder entries and fires.
\<close>

theorem late_baseline_leaves_ladder_empty:
  "initial_prices (\<lambda>n. (None, None)) 0 (None, None) = (Some 0, Some 1)
   \<and> startup ladder_cfg (Some 0, Some 1) = Inr unbaselined_state
   \<and> next_state (cycle ladder_cfg unbaselined_state poll_200_100) = late_state
   \<and> scale_in_trigger_ratios late_state = []
   \<and> \<not> fired (cycle ladder_cfg late_state poll_down)
   \<and> orders (cycle ladder_cfg late_state poll_down) = []
   \<and> startup ladder_cfg (Some 200, Some 100) = Inr ladder_state
   \<and> scale_in_trigger_ratios ladder_state = [99 / 50, 97 / 50, 19 / 10]
   \<and> fired (cycle ladder_cfg ladder_state poll_down)"
  by code_simp

subsection \<open>An order submission that raises\<close>

text \<open>
  Claim C3 when the long order returns code zero and the submission of the short order
  raises: the pass ends in the exception handler of the loop with the outcome table never
  reached and the state unchanged, and the next pass with the same prices submits the pair
  again.
\<close>

theorem order_exception_escapes:
  "ctl (cycle scenario_cfg scenario_state poll_short_raises) = Caught
   \<and> orders (cycle scenario_cfg scenario_state poll_short_raises) = [(Buy, 441 / 50), (Sell, 15)]
   \<and> next_state (cycle scenario_cfg scenario_state poll_short_raises) = scenario_state
   \<and> concat (map orders (run scenario_cfg scenario_state [poll_short_raises, poll_short_raises]))
       = [(Buy, 441 / 50), (Sell, 15), (Buy, 441 / 50), (Sell, 15)]
   \<and> ctl (cycle ladder_cfg ladder_state poll_short_raises) = Caught
   \<and> scale_in_executed (next_state (cycle ladder_cfg ladder_state poll_short_raises)) = 0"
  by code_simp

end
